theory Spec2Isabelle
  imports Complex_Main "HOL-Library.Word"
begin

section \<open>Strings\<close>

text \<open>
  Python's \<^verbatim>\<open>str.strip()\<close> without argument removes leading and trailing whitespace.
  A string is a list of characters with code points 0 to 255. In that range
  \<^verbatim>\<open>str.isspace\<close> accepts tab, line feed, vertical tab, form feed, carriage return (9 to
  13), the four separators 28 to 31, the space (32), next line (133) and the no-break
  space (160).
\<close>

definition isspace :: "char \<Rightarrow> bool" where
  "isspace c = (of_char c \<in> set [9, 10, 11, 12, 13, 28, 29, 30, 31, 32, 133, 160 :: nat])"

definition strip :: "string \<Rightarrow> string" where
  "strip s = rev (dropWhile isspace (rev (dropWhile isspace s)))"

section \<open>The cutoff catalog (a pandas DataFrame)\<close>

text \<open>
  \<^verbatim>\<open>pd.read_csv\<close> yields a frame whose cells are missing (\<open>NaN\<close>), numbers or
  strings. Numbers are modelled as exact rationals. A row gives the cell of every column;
  only columns listed in \<open>columns\<close> are ever read, any other access is a \<^verbatim>\<open>KeyError\<close>.
  The frame read from the file has the index 0, 1, 2, ... (the position of the row).
\<close>

datatype cell = NaN | Num rat | Str string

record dataframe =
  columns :: "string list"
  rows :: "(string \<Rightarrow> cell) list"

text \<open>
  The two conversions of pandas that depend on number syntax are parameters: how a string
  is parsed as a number (\<open>None\<close> when it is not one) and how a number is printed.
\<close>

record pandas =
  parse_number :: "string \<Rightarrow> rat option"
  format_number :: "rat \<Rightarrow> string"

text \<open>\<^verbatim>\<open>Series.astype(str)\<close>, cell by cell.\<close>

definition astype_str :: "pandas \<Rightarrow> cell \<Rightarrow> string" where
  "astype_str pd c = (case c of NaN \<Rightarrow> ''nan'' | Num x \<Rightarrow> format_number pd x | Str s \<Rightarrow> s)"

text \<open>\<^verbatim>\<open>pd.to_numeric(..., errors="coerce")\<close>, cell by cell: what does not parse is \<open>NaN\<close>.\<close>

definition to_numeric :: "pandas \<Rightarrow> cell \<Rightarrow> cell" where
  "to_numeric pd c =
     (case c of
        NaN \<Rightarrow> NaN
      | Num x \<Rightarrow> Num x
      | Str s \<Rightarrow> (case parse_number pd s of None \<Rightarrow> NaN | Some x \<Rightarrow> Num x))"

text \<open>Comparison of a numeric cell with an integer, and \<^verbatim>\<open>isna\<close>. \<open>NaN >= n\<close> is false.\<close>

definition ge_rank :: "cell \<Rightarrow> int \<Rightarrow> bool" where
  "ge_rank c n = (case c of Num x \<Rightarrow> of_int n \<le> x | _ \<Rightarrow> False)"

definition isna :: "cell \<Rightarrow> bool" where
  "isna c = (c = NaN)"

section \<open>College Predictor page\<close>

text \<open>The dictionary \<^verbatim>\<open>category_column_map\<close>, built from the selected gender.\<close>

definition category_column_map :: "string \<Rightarrow> string \<rightharpoonup> string" where
  "category_column_map gender =
     map_of
       [(''Gen'', ''gen''),
        (''EWS'', if gender = ''male'' then ''mews'' else ''fews''),
        (''OBC'', if gender = ''male'' then ''mobc'' else ''fobc''),
        (''SC'', if gender = ''male'' then ''msc'' else ''fsc''),
        (''ST'', if gender = ''male'' then ''mst'' else ''fst'')]"

text \<open>A frame under work: rows together with their index label.\<close>

type_synonym indexed_rows = "(nat \<times> (string \<Rightarrow> cell)) list"

text \<open>\<^verbatim>\<open>df[df["category"].astype(str).str.strip() == sfs_gas.strip()]\<close>\<close>

definition filtered_df :: "pandas \<Rightarrow> dataframe \<Rightarrow> string \<Rightarrow> indexed_rows" where
  "filtered_df pd df sfs_gas =
     filter (\<lambda>(i, r). strip (astype_str pd (r ''category'')) = strip sfs_gas)
       (enumerate 0 (rows df))"

text \<open>
  \<^verbatim>\<open>filtered_df[category_column] = pd.to_numeric(filtered_df[category_column], errors="coerce")\<close>
  on the copy.
\<close>

definition coerce_column :: "pandas \<Rightarrow> string \<Rightarrow> indexed_rows \<Rightarrow> indexed_rows" where
  "coerce_column pd category_column fr =
     map (\<lambda>(i, r). (i, r(category_column := to_numeric pd (r category_column)))) fr"

text \<open>The boolean mask \<^verbatim>\<open>(col >= int(input_rank)) | col.isna()\<close>.\<close>

definition rank_mask :: "string \<Rightarrow> int \<Rightarrow> indexed_rows \<Rightarrow> indexed_rows" where
  "rank_mask category_column input_rank fr =
     filter (\<lambda>(i, r). ge_rank (r category_column) input_rank \<or> isna (r category_column)) fr"

text \<open>
  The projection \<^verbatim>\<open>[["Institute", "Branch", category_column]]\<close> with the column renamed
  to \<^verbatim>\<open>Cutoff\<close>; the index label stays with the row.
\<close>

record result_row =
  row_index :: nat
  Institute :: cell
  Branch :: cell
  Cutoff :: cell

definition project :: "string \<Rightarrow> indexed_rows \<Rightarrow> result_row list" where
  "project category_column fr =
     map (\<lambda>(i, r). \<lparr>row_index = i, Institute = r ''Institute'', Branch = r ''Branch'',
                     Cutoff = r category_column\<rparr>) fr"

text \<open>
  What a page shows after its button is pressed: an uncaught exception, an error box, a
  warning, a success message or a table.
\<close>

datatype page =
    Raised string
  | StError string
  | StWarning string
  | StSuccess string
  | StDataframe "result_row list"

text \<open>
  Pressing \<^verbatim>\<open>Predict\<close>. \<open>sfs_gas\<close> is \<open>None\<close> when the select box has no option to
  offer; \<^verbatim>\<open>int(input_rank)\<close> is the identity on the integer the number input returns.
\<close>

definition predict ::
  "pandas \<Rightarrow> dataframe \<Rightarrow> string \<Rightarrow> string option \<Rightarrow> string \<Rightarrow> int \<Rightarrow> page" where
  "predict pd df gender sfs_gas category input_rank =
     (if ''category'' \<notin> set (columns df) then Raised ''KeyError''
      else case sfs_gas of
        None \<Rightarrow> Raised ''AttributeError''
      | Some g \<Rightarrow>
          (case category_column_map gender category of
             None \<Rightarrow> StError ''Category column not found''
           | Some category_column \<Rightarrow>
               if category_column \<notin> set (columns df)
               then StError ''Category column not found''
               else if ''Institute'' \<in> set (columns df) \<and> ''Branch'' \<in> set (columns df)
               then StDataframe
                      (project category_column
                         (rank_mask category_column input_rank
                            (coerce_column pd category_column (filtered_df pd df g))))
               else Raised ''KeyError''))"

section \<open>The MongoDB collections and the mail server\<close>

text \<open>
  A document is a list of fields. The driver's \<^verbatim>\<open>insert_one\<close> adds an \<^verbatim>\<open>_id\<close> field to
  a document that has none: a fresh \<^verbatim>\<open>ObjectId\<close> of 12 bytes, whose first 4 bytes are the
  time of its creation in seconds and whose other 8 bytes (a random value and a counter)
  make it unique. Whether a call to the database or to the mail server fails, and with what
  exception, is given by the environment, as are the clock and the 8 bytes the driver
  draws. An environment describes one press of a button, in which at most one document is
  inserted.
\<close>

datatype bson = BStr string | ObjectId "32 word" "64 word"

type_synonym document = "(string \<times> bson) list"

record env =
  find_error :: "string option"
  insert_error :: "string option"
  mail_error :: "string option"
  clock :: "32 word"
  new_oid :: "64 word"

text \<open>The property \<^verbatim>\<open>generation_time\<close> of an \<^verbatim>\<open>ObjectId\<close>: the time in its first 4 bytes.\<close>

definition generation_time :: "bson \<Rightarrow> 32 word option" where
  "generation_time v = (case v of ObjectId t r \<Rightarrow> Some t | BStr s \<Rightarrow> None)"

text \<open>The calls made to the collaborators, in order, and the two collections.\<close>

datatype call = FindOne string | InsertOne document | SendMail string string string

record world =
  users_collection :: "document list"
  issues_collection :: "document list"
  calls :: "call list"

text \<open>\<^verbatim>\<open>collection.find_one({"username": username})\<close>\<close>

definition find_one :: "env \<Rightarrow> document list \<Rightarrow> string \<Rightarrow> string + document option" where
  "find_one e coll uname =
     (case find_error e of
        Some x \<Rightarrow> Inl x
      | None \<Rightarrow> Inr (List.find (\<lambda>d. map_of d ''username'' = Some (BStr uname)) coll))"

text \<open>\<^verbatim>\<open>collection.insert_one(doc)\<close>\<close>

definition insert_one :: "env \<Rightarrow> document list \<Rightarrow> document \<Rightarrow> string + document list" where
  "insert_one e coll doc =
     (case insert_error e of
        Some x \<Rightarrow> Inl x
      | None \<Rightarrow>
          Inr (coll @ [if map_of doc ''_id'' = None
                       then doc @ [(''_id'', ObjectId (clock e) (new_oid e))] else doc]))"

text \<open>
  \<^verbatim>\<open>send_mail\<close> builds the message, connects, logs in and sends; it returns nothing, or one
  of these steps raises.
\<close>

definition send_mail :: "env \<Rightarrow> string \<Rightarrow> string \<Rightarrow> string \<Rightarrow> string option" where
  "send_mail e to_email subject body = mail_error e"

section \<open>Registration and login\<close>

text \<open>The two functions of \<^verbatim>\<open>werkzeug.security\<close> are parameters.\<close>

record werkzeug =
  generate_password_hash :: "string \<Rightarrow> string"
  check_password_hash :: "string \<Rightarrow> string \<Rightarrow> bool"

text \<open>
  \<^verbatim>\<open>register_user\<close> returns an error message or \<^verbatim>\<open>None\<close>; \<open>Inl\<close> is an exception of
  the database. A document found by the query has a \<^verbatim>\<open>username\<close> field, so it is a
  non-empty dictionary and true in the test.
\<close>

definition register_user ::
  "werkzeug \<Rightarrow> env \<Rightarrow> world \<Rightarrow> string \<Rightarrow> string \<Rightarrow> (string + string option) \<times> world" where
  "register_user wz e w uname password =
     (let w1 = w\<lparr>calls := calls w @ [FindOne uname]\<rparr> in
      case find_one e (users_collection w) uname of
        Inl x \<Rightarrow> (Inl x, w1)
      | Inr (Some user) \<Rightarrow> (Inr (Some ''Username already exists''), w1)
      | Inr None \<Rightarrow>
          (let hashed = generate_password_hash wz password;
               doc = [(''username'', BStr uname), (''password'', BStr hashed)];
               w2 = w1\<lparr>calls := calls w1 @ [InsertOne doc]\<rparr>
           in case insert_one e (users_collection w) doc of
                Inl x \<Rightarrow> (Inl x, w2)
              | Inr coll \<Rightarrow> (Inr None, w2\<lparr>users_collection := coll\<rparr>)))"

text \<open>
  \<^verbatim>\<open>login_user\<close> returns \<^verbatim>\<open>user and check_password_hash(user["password"], password)\<close>:
  the value of \<^verbatim>\<open>user\<close> when that is \<^verbatim>\<open>None\<close>, the boolean of the check otherwise.
\<close>

datatype pyval = PyNone | PyBool bool

definition truthy :: "pyval \<Rightarrow> bool" where
  "truthy v = (case v of PyNone \<Rightarrow> False | PyBool b \<Rightarrow> b)"

definition login_user ::
  "werkzeug \<Rightarrow> env \<Rightarrow> world \<Rightarrow> string \<Rightarrow> string \<Rightarrow> (string + pyval) \<times> world" where
  "login_user wz e w uname password =
     (let w1 = w\<lparr>calls := calls w @ [FindOne uname]\<rparr> in
      case find_one e (users_collection w) uname of
        Inl x \<Rightarrow> (Inl x, w1)
      | Inr None \<Rightarrow> (Inr PyNone, w1)
      | Inr (Some user) \<Rightarrow>
          (case map_of user ''password'' of
             None \<Rightarrow> (Inl ''KeyError'', w1)
           | Some (ObjectId t n) \<Rightarrow> (Inl ''TypeError'', w1)
           | Some (BStr h) \<Rightarrow> (Inr (PyBool (check_password_hash wz h password)), w1)))"

text \<open>The session state and the \<^verbatim>\<open>Login\<close> button.\<close>

record session =
  authenticated :: bool
  session_username :: "string option"

definition login_page ::
  "werkzeug \<Rightarrow> env \<Rightarrow> world \<Rightarrow> session \<Rightarrow> string \<Rightarrow> string \<Rightarrow> page \<times> session \<times> world" where
  "login_page wz e w ss uname password =
     (case login_user wz e w uname password of
        (Inl x, w') \<Rightarrow> (Raised x, ss, w')
      | (Inr v, w') \<Rightarrow>
          if truthy v
          then (StSuccess ''Login successful'',
                ss\<lparr>authenticated := True, session_username := Some uname\<rparr>, w')
          else (StError ''Invalid username or password'', ss, w'))"

section \<open>Submit Issue page\<close>

definition newline :: string where
  "newline = [CHR 0x0A]"

definition confirmation_body :: "string \<Rightarrow> string \<Rightarrow> string" where
  "confirmation_body name issue =
     ''Hello '' @ name @ '','' @ newline @ newline
     @ ''Thank you for submitting your issue.'' @ newline @ newline
     @ ''Your Issue: '' @ issue @ newline @ newline
     @ ''Best,'' @ newline @ ''ShikshaMitra Support Team''"

text \<open>The dictionary handed to \<^verbatim>\<open>insert_one\<close>.\<close>

definition issue_document :: "string \<Rightarrow> string \<Rightarrow> string \<Rightarrow> string \<Rightarrow> document" where
  "issue_document name email mobile issue =
     [(''name'', BStr name), (''email'', BStr email), (''mobile'', BStr mobile),
      (''issue'', BStr issue)]"

text \<open>
  Pressing \<^verbatim>\<open>Submit\<close>. A string is true when it is not empty. The insert is outside the
  \<^verbatim>\<open>try\<close>, so its exception is not caught; the exception of \<^verbatim>\<open>send_mail\<close> is.
\<close>

definition submit_issue ::
  "env \<Rightarrow> world \<Rightarrow> string \<Rightarrow> string \<Rightarrow> string \<Rightarrow> string \<Rightarrow> page \<times> world" where
  "submit_issue e w name email mobile issue =
     (if \<not> (name \<noteq> [] \<and> email \<noteq> [] \<and> issue \<noteq> [])
      then (StError ''Name, Email, and Issue are required.'', w)
      else
        (let doc = issue_document name email mobile issue;
             w1 = w\<lparr>calls := calls w @ [InsertOne doc]\<rparr>
         in case insert_one e (issues_collection w) doc of
              Inl x \<Rightarrow> (Raised x, w1)
            | Inr coll \<Rightarrow>
                (let body = confirmation_body name issue;
                     subject = ''Issue Submission Confirmation'';
                     w2 = w1\<lparr>issues_collection := coll,
                             calls := calls w1 @ [SendMail email subject body]\<rparr>
                 in case send_mail e email subject body of
                      None \<Rightarrow> (StSuccess ''Issue submitted. Confirmation email sent.'', w2)
                    | Some x \<Rightarrow> (StWarning (''Issue saved, but email failed: '' @ x), w2))))"

section \<open>Example data\<close>

text \<open>
  A catalog of four rows with the columns \<^verbatim>\<open>Institute\<close>, \<^verbatim>\<open>Branch\<close>, \<^verbatim>\<open>category\<close>, \<^verbatim>\<open>gen\<close> and
  \<^verbatim>\<open>mobc\<close>, used to run the definitions on concrete inputs.
\<close>

definition example_row :: "cell \<Rightarrow> cell \<Rightarrow> cell \<Rightarrow> cell \<Rightarrow> cell \<Rightarrow> string \<Rightarrow> cell" where
  "example_row inst br cat g mobc k =
     (if k = ''Institute'' then inst else if k = ''Branch'' then br
      else if k = ''category'' then cat else if k = ''gen'' then g
      else if k = ''mobc'' then mobc else NaN)"

definition example_pandas :: pandas where
  "example_pandas = \<lparr>parse_number = (\<lambda>s. if s = ''4200'' then Some 4200 else None),
                     format_number = (\<lambda>x. ''0'')\<rparr>"

definition example_df :: dataframe where
  "example_df = \<lparr>columns = [''Institute'', ''Branch'', ''category'', ''gen'', ''mobc''],
     rows = [example_row (Str ''X'') (Str ''CS'') (Str '' SFS '') (Num 5000) (Str ''4200''),
             example_row (Str ''Y'') (Str ''ME'') (Str ''GAS'') (Num 6000) (Num 9000),
             example_row (Str ''Z'') (Str ''EE'') (Str ''SFS'') (Num 100) (Str ''--''),
             example_row (Str ''W'') (Str ''CE'') (Str ''SFS'') (Num 100) (Num 3999)]\<rparr>"

definition example_result :: "result_row list" where
  "example_result =
     [\<lparr>row_index = 0, Institute = Str ''X'', Branch = Str ''CS'', Cutoff = Num 4200\<rparr>,
      \<lparr>row_index = 2, Institute = Str ''Z'', Branch = Str ''EE'', Cutoff = NaN\<rparr>]"

text \<open>
  A store and a mail server that answer, toy hash functions, and a world with one user.
\<close>

definition example_env :: env where
  "example_env = \<lparr>find_error = None, insert_error = None, mail_error = None,
      clock = 1730000000, new_oid = 7\<rparr>"

definition example_werkzeug :: werkzeug where
  "example_werkzeug =
     \<lparr>generate_password_hash = (\<lambda>p. ''pbkdf2:sha256$'' @ rev p),
      check_password_hash = (\<lambda>h p. h = ''pbkdf2:sha256$'' @ rev p)\<rparr>"

definition example_world :: world where
  "example_world =
     \<lparr>users_collection =
        [[(''username'', BStr ''alice''), (''password'', BStr ''pbkdf2:sha256$terces''),
          (''_id'', ObjectId 1700000000 1)]],
      issues_collection = [],
      calls = []\<rparr>"

definition example_env_mail_down :: env where
  "example_env_mail_down = example_env\<lparr>mail_error := Some ''SMTPServerDisconnected''\<rparr>"

section \<open>Properties of the College Predictor\<close>

lemma predict_StDataframe:
  assumes "predict pd df gender sfs_gas category input_rank = StDataframe rs"
  obtains g col where "sfs_gas = Some g"
    and "category_column_map gender category = Some col"
    and "''category'' \<in> set (columns df)" and "col \<in> set (columns df)"
    and "''Institute'' \<in> set (columns df)" and "''Branch'' \<in> set (columns df)"
    and "rs = project col (rank_mask col input_rank (coerce_column pd col (filtered_df pd df g)))"
  using assms unfolding predict_def
  by (auto split: if_splits option.splits)

lemma in_filtered_df:
  "(i, r) \<in> set (filtered_df pd df g) \<longleftrightarrow>
     i < length (rows df) \<and> r = rows df ! i
     \<and> strip (astype_str pd (r ''category'')) = strip g"
  unfolding filtered_df_def by (auto simp: in_set_enumerate_eq)

lemma category_column_fresh:
  assumes "category_column_map gender category = Some col"
  shows "col \<noteq> ''Institute'' \<and> col \<noteq> ''Branch'' \<and> col \<noteq> ''category''"
proof -
  have "col \<in> set [''gen'', ''mews'', ''fews'', ''mobc'', ''fobc'', ''msc'', ''fsc'', ''mst'', ''fst'']"
    using assms unfolding category_column_map_def
    by (simp split: if_splits)
  then show ?thesis by auto
qed

lemma in_coerce_column:
  "(i, r') \<in> set (coerce_column pd col fr) \<longleftrightarrow>
     (\<exists>r. (i, r) \<in> set fr \<and> r' = r(col := to_numeric pd (r col)))"
  unfolding coerce_column_def by (induction fr) auto

lemma in_rank_mask:
  "(i, r) \<in> set (rank_mask col n fr) \<longleftrightarrow>
     (i, r) \<in> set fr \<and> (ge_rank (r col) n \<or> isna (r col))"
  unfolding rank_mask_def by simp

lemma in_project:
  "\<rho> \<in> set (project col fr) \<longleftrightarrow>
     (\<exists>i r. (i, r) \<in> set fr
        \<and> \<rho> = \<lparr>row_index = i, Institute = r ''Institute'', Branch = r ''Branch'',
                 Cutoff = r col\<rparr>)"
  unfolding project_def by (induction fr) auto

lemma in_pipeline:
  "\<rho> \<in> set (project col (rank_mask col n (coerce_column pd col (filtered_df pd df g)))) \<longleftrightarrow>
     (\<exists>i. i < length (rows df)
        \<and> strip (astype_str pd ((rows df ! i) ''category'')) = strip g
        \<and> (ge_rank (to_numeric pd ((rows df ! i) col)) n
             \<or> isna (to_numeric pd ((rows df ! i) col)))
        \<and> \<rho> = \<lparr>row_index = i,
                Institute = ((rows df ! i)(col := to_numeric pd ((rows df ! i) col))) ''Institute'',
                Branch = ((rows df ! i)(col := to_numeric pd ((rows df ! i) col))) ''Branch'',
                Cutoff = to_numeric pd ((rows df ! i) col)\<rparr>)"
  (is "?L \<longleftrightarrow> ?R")
proof
  assume ?L
  then obtain i r' where a: "(i, r') \<in> set (rank_mask col n (coerce_column pd col (filtered_df pd df g)))"
    and b: "\<rho> = \<lparr>row_index = i, Institute = r' ''Institute'', Branch = r' ''Branch'', Cutoff = r' col\<rparr>"
    unfolding in_project by blast
  from a have c: "(i, r') \<in> set (coerce_column pd col (filtered_df pd df g))"
    and d: "ge_rank (r' col) n \<or> isna (r' col)"
    unfolding in_rank_mask by blast+
  from c obtain r where e: "(i, r) \<in> set (filtered_df pd df g)"
    and f: "r' = r(col := to_numeric pd (r col))"
    unfolding in_coerce_column by blast
  from e have g: "i < length (rows df)" "r = rows df ! i"
    "strip (astype_str pd (r ''category'')) = strip g"
    unfolding in_filtered_df by blast+
  show ?R
    using b d f g by (intro exI [of _ i]) simp
next
  assume ?R
  then obtain i where g: "i < length (rows df)"
    "strip (astype_str pd ((rows df ! i) ''category'')) = strip g"
    and d: "ge_rank (to_numeric pd ((rows df ! i) col)) n \<or> isna (to_numeric pd ((rows df ! i) col))"
    and b: "\<rho> = \<lparr>row_index = i,
                Institute = ((rows df ! i)(col := to_numeric pd ((rows df ! i) col))) ''Institute'',
                Branch = ((rows df ! i)(col := to_numeric pd ((rows df ! i) col))) ''Branch'',
                Cutoff = to_numeric pd ((rows df ! i) col)\<rparr>"
    by blast
  let ?r = "rows df ! i"
  let ?r' = "?r(col := to_numeric pd (?r col))"
  have "(i, ?r) \<in> set (filtered_df pd df g)"
    unfolding in_filtered_df using g by simp
  then have "(i, ?r') \<in> set (coerce_column pd col (filtered_df pd df g))"
    unfolding in_coerce_column by blast
  then have "(i, ?r') \<in> set (rank_mask col n (coerce_column pd col (filtered_df pd df g)))"
    unfolding in_rank_mask using d by simp
  moreover have "\<rho> = \<lparr>row_index = i, Institute = ?r' ''Institute'', Branch = ?r' ''Branch'', Cutoff = ?r' col\<rparr>"
    using b by simp
  ultimately show ?L
    unfolding in_project by blast
qed

lemma indices_pipeline:
  "map row_index (project col (rank_mask col n (coerce_column pd col fr))) =
     map fst (filter (\<lambda>(i, r). ge_rank (to_numeric pd (r col)) n \<or> isna (to_numeric pd (r col))) fr)"
  unfolding project_def rank_mask_def coerce_column_def
  by (induction fr) auto

lemma sorted_indices_filtered_df:
  "sorted_wrt (<) (map fst (filter P (filtered_df pd df g)))"
proof -
  have "sorted_wrt (<) [0..<length (rows df)]"
    by (rule sorted_wrt_upt)
  then have "sorted_wrt (<) (map fst (enumerate 0 (rows df)))"
    by simp
  then have "sorted_wrt (\<lambda>p q. fst p < fst q) (enumerate 0 (rows df))"
    by (simp only: sorted_wrt_map)
  then have "sorted_wrt (\<lambda>p q. fst p < fst q) (filter P (filtered_df pd df g))"
    unfolding filtered_df_def by (intro sorted_wrt_filter)
  then show ?thesis by (simp only: sorted_wrt_map)
qed

lemma pipeline_row:
  assumes "\<rho> \<in> set (project col (rank_mask col n (coerce_column pd col (filtered_df pd df g))))"
  shows "row_index \<rho> < length (rows df)"
    and "strip (astype_str pd ((rows df ! row_index \<rho>) ''category'')) = strip g"
    and "ge_rank (to_numeric pd ((rows df ! row_index \<rho>) col)) n
         \<or> isna (to_numeric pd ((rows df ! row_index \<rho>) col))"
    and "Cutoff \<rho> = to_numeric pd ((rows df ! row_index \<rho>) col)"
    and "col \<noteq> ''Institute'' \<Longrightarrow> Institute \<rho> = (rows df ! row_index \<rho>) ''Institute''"
    and "col \<noteq> ''Branch'' \<Longrightarrow> Branch \<rho> = (rows df ! row_index \<rho>) ''Branch''"
proof -
  from assms obtain i where i: "i < length (rows df)"
    "strip (astype_str pd ((rows df ! i) ''category'')) = strip g"
    "ge_rank (to_numeric pd ((rows df ! i) col)) n \<or> isna (to_numeric pd ((rows df ! i) col))"
    and \<rho>: "\<rho> = \<lparr>row_index = i,
                Institute = ((rows df ! i)(col := to_numeric pd ((rows df ! i) col))) ''Institute'',
                Branch = ((rows df ! i)(col := to_numeric pd ((rows df ! i) col))) ''Branch'',
                Cutoff = to_numeric pd ((rows df ! i) col)\<rparr>"
    unfolding in_pipeline by blast
  have ri: "row_index \<rho> = i" by (simp add: \<rho>)
  show "row_index \<rho> < length (rows df)" using i(1) ri by simp
  show "strip (astype_str pd ((rows df ! row_index \<rho>) ''category'')) = strip g"
    using i(2) ri by simp
  show "ge_rank (to_numeric pd ((rows df ! row_index \<rho>) col)) n
         \<or> isna (to_numeric pd ((rows df ! row_index \<rho>) col))"
    using i(3) ri by simp
  show "Cutoff \<rho> = to_numeric pd ((rows df ! row_index \<rho>) col)"
    by (simp add: \<rho>)
  show "Institute \<rho> = (rows df ! row_index \<rho>) ''Institute''" if "col \<noteq> ''Institute''"
    using that by (simp add: \<rho>)
  show "Branch \<rho> = (rows df ! row_index \<rho>) ''Branch''" if "col \<noteq> ''Branch''"
    using that by (simp add: \<rho>)
qed

lemma pipeline_index:
  assumes "i < length (rows df)"
    and "strip (astype_str pd ((rows df ! i) ''category'')) = strip g"
  shows "i \<in> row_index ` set (project col (rank_mask col n (coerce_column pd col (filtered_df pd df g))))
         \<longleftrightarrow> ge_rank (to_numeric pd ((rows df ! i) col)) n
              \<or> isna (to_numeric pd ((rows df ! i) col))"
    (is "?L \<longleftrightarrow> ?R")
proof
  assume ?L
  then obtain \<rho> where m: "\<rho> \<in> set (project col (rank_mask col n (coerce_column pd col (filtered_df pd df g))))"
    and ri: "row_index \<rho> = i"
    by blast
  show ?R using pipeline_row(3) [OF m] ri by simp
next
  assume r: ?R
  define \<rho> where "\<rho> = \<lparr>row_index = i,
                Institute = ((rows df ! i)(col := to_numeric pd ((rows df ! i) col))) ''Institute'',
                Branch = ((rows df ! i)(col := to_numeric pd ((rows df ! i) col))) ''Branch'',
                Cutoff = to_numeric pd ((rows df ! i) col)\<rparr>"
  have "\<rho> \<in> set (project col (rank_mask col n (coerce_column pd col (filtered_df pd df g))))"
    unfolding in_pipeline using assms r \<rho>_def by blast
  moreover have "row_index \<rho> = i" by (simp add: \<rho>_def)
  ultimately show ?L by (metis imageI)
qed

lemma ge_rank_or_isna:
  "ge_rank c n \<or> isna c \<longleftrightarrow> (\<exists>x. c = Num x \<and> of_int n \<le> x) \<or> c = NaN"
  unfolding ge_rank_def isna_def by (cases c) simp_all

text \<open>
  C1. When the table is shown, a row of the queried group is in it exactly when its
  cell in the resolved column, made numeric, is a number at least the rank or is \<open>NaN\<close>
  (it did not parse). So a cutoff equal to the rank is in, a cutoff of rank minus one is
  out, and a cell that is not a number is in for every rank.
\<close>

theorem inclusion_rule:
  assumes "predict pd df gender (Some g) category input_rank = StDataframe rs"
    and "category_column_map gender category = Some col"
    and "i < length (rows df)"
    and "strip (astype_str pd ((rows df ! i) ''category'')) = strip g"
  shows "(i \<in> row_index ` set rs \<longleftrightarrow>
            (\<exists>x. to_numeric pd ((rows df ! i) col) = Num x \<and> of_int input_rank \<le> x)
            \<or> to_numeric pd ((rows df ! i) col) = NaN)
         \<and> (to_numeric pd ((rows df ! i) col) = Num (of_int input_rank)
              \<longrightarrow> i \<in> row_index ` set rs)
         \<and> (to_numeric pd ((rows df ! i) col) = Num (of_int (input_rank - 1))
              \<longrightarrow> i \<notin> row_index ` set rs)
         \<and> (to_numeric pd ((rows df ! i) col) = NaN \<longrightarrow> i \<in> row_index ` set rs)"
proof -
  let ?c = "to_numeric pd ((rows df ! i) col)"
  from assms(1) obtain g' col' where "Some g = Some g'"
    "category_column_map gender category = Some col'"
    "rs = project col' (rank_mask col' input_rank (coerce_column pd col' (filtered_df pd df g')))"
    by (rule predict_StDataframe)
  with assms(2) have rs: "rs = project col (rank_mask col input_rank (coerce_column pd col (filtered_df pd df g)))"
    by simp
  have main: "i \<in> row_index ` set rs \<longleftrightarrow>
      (\<exists>x. ?c = Num x \<and> of_int input_rank \<le> x) \<or> ?c = NaN"
    unfolding rs pipeline_index [OF assms(3,4)] by (rule ge_rank_or_isna)
  have a: "?c = Num (of_int input_rank) \<longrightarrow> i \<in> row_index ` set rs"
    unfolding main by simp
  have b: "?c = Num (of_int (input_rank - 1)) \<longrightarrow> i \<notin> row_index ` set rs"
    unfolding main by simp
  have c: "?c = NaN \<longrightarrow> i \<in> row_index ` set rs"
    unfolding main by simp
  from main a b c show ?thesis by (intro conjI)
qed

lemma strip_no_break_space: "strip (CHR 0xA0 # ''SFS'' @ [CHR 0x85, CHR '' '']) = ''SFS''"
  by (simp add: strip_def isspace_def)

text \<open>
  C4. Every row of the table comes from a catalog row whose \<^verbatim>\<open>category\<close> cell, as a
  string and stripped, equals the stripped group of the query, by exact comparison of the
  strings; a row of another group is never in the table, whatever its cutoff.
\<close>

theorem group_isolation:
  assumes "predict pd df gender (Some g) category input_rank = StDataframe rs"
  shows "(\<forall>\<rho> \<in> set rs. row_index \<rho> < length (rows df)
            \<and> strip (astype_str pd ((rows df ! row_index \<rho>) ''category'')) = strip g)
         \<and> (\<forall>i < length (rows df).
              strip (astype_str pd ((rows df ! i) ''category'')) \<noteq> strip g
              \<longrightarrow> i \<notin> row_index ` set rs)"
proof -
  from assms obtain g' col where "Some g = Some g'"
    "rs = project col (rank_mask col input_rank (coerce_column pd col (filtered_df pd df g')))"
    by (rule predict_StDataframe)
  then have rs: "rs = project col (rank_mask col input_rank (coerce_column pd col (filtered_df pd df g)))"
    by simp
  have a: "\<forall>\<rho> \<in> set rs. row_index \<rho> < length (rows df)
            \<and> strip (astype_str pd ((rows df ! row_index \<rho>) ''category'')) = strip g"
    unfolding rs using pipeline_row(1,2) by blast
  then have "\<forall>i < length (rows df).
              strip (astype_str pd ((rows df ! i) ''category'')) \<noteq> strip g
              \<longrightarrow> i \<notin> row_index ` set rs"
    by blast
  with a show ?thesis by (intro conjI)
qed

text \<open>
  C5. The table is a function of the catalog and the query alone. Each of its rows is the
  projection of one catalog row to \<^verbatim>\<open>Institute\<close>, \<^verbatim>\<open>Branch\<close> and the numeric cell of the
  resolved column (\<open>NaN\<close> when unknown), and the index labels of the rows are strictly
  increasing: the rows keep the order of the catalog and nothing is sorted again.
\<close>

theorem projection_and_order:
  assumes "predict pd df gender sfs_gas category input_rank = StDataframe rs"
    and "category_column_map gender category = Some col"
  shows "sorted_wrt (<) (map row_index rs)
         \<and> (\<forall>\<rho> \<in> set rs. row_index \<rho> < length (rows df)
              \<and> Institute \<rho> = (rows df ! row_index \<rho>) ''Institute''
              \<and> Branch \<rho> = (rows df ! row_index \<rho>) ''Branch''
              \<and> Cutoff \<rho> = to_numeric pd ((rows df ! row_index \<rho>) col))
         \<and> (\<forall>df' gender' sfs_gas' category' input_rank'.
              df' = df \<and> gender' = gender \<and> sfs_gas' = sfs_gas \<and> category' = category
              \<and> input_rank' = input_rank
              \<longrightarrow> predict pd df' gender' sfs_gas' category' input_rank' = StDataframe rs)"
proof -
  from assms(1) obtain g col' where
    "category_column_map gender category = Some col'"
    "rs = project col' (rank_mask col' input_rank (coerce_column pd col' (filtered_df pd df g)))"
    by (rule predict_StDataframe)
  with assms(2) have rs: "rs = project col (rank_mask col input_rank (coerce_column pd col (filtered_df pd df g)))"
    by simp
  have fresh: "col \<noteq> ''Institute''" "col \<noteq> ''Branch''"
    using category_column_fresh [OF assms(2)] by simp_all
  have a: "sorted_wrt (<) (map row_index rs)"
    unfolding rs indices_pipeline by (rule sorted_indices_filtered_df)
  have b: "\<forall>\<rho> \<in> set rs. row_index \<rho> < length (rows df)
              \<and> Institute \<rho> = (rows df ! row_index \<rho>) ''Institute''
              \<and> Branch \<rho> = (rows df ! row_index \<rho>) ''Branch''
              \<and> Cutoff \<rho> = to_numeric pd ((rows df ! row_index \<rho>) col)"
  proof (intro ballI conjI)
    fix \<rho> assume "\<rho> \<in> set rs"
    then have m: "\<rho> \<in> set (project col (rank_mask col input_rank
                      (coerce_column pd col (filtered_df pd df g))))"
      unfolding rs .
    show "row_index \<rho> < length (rows df)"
      by (rule pipeline_row(1) [OF m])
    show "Institute \<rho> = (rows df ! row_index \<rho>) ''Institute''"
      by (rule pipeline_row(5) [OF m fresh(1)])
    show "Branch \<rho> = (rows df ! row_index \<rho>) ''Branch''"
      by (rule pipeline_row(6) [OF m fresh(2)])
    show "Cutoff \<rho> = to_numeric pd ((rows df ! row_index \<rho>) col)"
      by (rule pipeline_row(4) [OF m])
  qed
  have c: "\<forall>df' gender' sfs_gas' category' input_rank'.
              df' = df \<and> gender' = gender \<and> sfs_gas' = sfs_gas \<and> category' = category
              \<and> input_rank' = input_rank
              \<longrightarrow> predict pd df' gender' sfs_gas' category' input_rank' = StDataframe rs"
    using assms(1) by simp
  from a b c show ?thesis by (intro conjI)
qed

text \<open>
  C6. On a catalog that has the \<^verbatim>\<open>category\<close> column, a query whose category and gender
  resolve to no column of the catalog gets the error box \<^verbatim>\<open>Category column not found\<close> and no
  table; a query whose resolved key is a column never gets an error box.
\<close>

theorem schema_mismatch:
  assumes "''category'' \<in> set (columns df)"
  shows "(category_column_map gender category \<notin> Some ` set (columns df)
            \<longrightarrow> predict pd df gender (Some g) category input_rank
                  = StError ''Category column not found'')
         \<and> (category_column_map gender category \<in> Some ` set (columns df)
            \<longrightarrow> (\<forall>msg. predict pd df gender (Some g) category input_rank \<noteq> StError msg))"
  using assms unfolding predict_def
  by (auto split: option.splits)

text \<open>
  C10. Every row of the table carries in \<^verbatim>\<open>Cutoff\<close> the numeric reading of its cell in the
  resolved column; that is \<open>NaN\<close> or a number at least the rank.
\<close>

theorem cutoff_never_below_rank:
  assumes "predict pd df gender sfs_gas category input_rank = StDataframe rs"
    and "category_column_map gender category = Some col"
    and "\<rho> \<in> set rs"
  shows "Cutoff \<rho> = to_numeric pd ((rows df ! row_index \<rho>) col)
         \<and> (Cutoff \<rho> = NaN \<or> (\<exists>x. Cutoff \<rho> = Num x \<and> of_int input_rank \<le> x))"
proof -
  from assms(1) obtain g col' where
    "category_column_map gender category = Some col'"
    "rs = project col' (rank_mask col' input_rank (coerce_column pd col' (filtered_df pd df g)))"
    by (rule predict_StDataframe)
  with assms(2) have rs: "rs = project col (rank_mask col input_rank (coerce_column pd col (filtered_df pd df g)))"
    by simp
  have m: "\<rho> \<in> set (project col (rank_mask col input_rank (coerce_column pd col (filtered_df pd df g))))"
    using assms(3) unfolding rs .
  have c: "Cutoff \<rho> = to_numeric pd ((rows df ! row_index \<rho>) col)"
    by (rule pipeline_row(4) [OF m])
  have "ge_rank (Cutoff \<rho>) input_rank \<or> isna (Cutoff \<rho>)"
    unfolding c by (rule pipeline_row(3) [OF m])
  then have "(\<exists>x. Cutoff \<rho> = Num x \<and> of_int input_rank \<le> x) \<or> Cutoff \<rho> = NaN"
    unfolding ge_rank_or_isna .
  with c show ?thesis by blast
qed

lemmas example_defs =
  predict_def example_df_def example_pandas_def example_row_def category_column_map_def
  project_def rank_mask_def coerce_column_def filtered_df_def strip_def isspace_def
  astype_str_def to_numeric_def ge_rank_def isna_def example_result_def

lemma example_predict_4200:
  "predict example_pandas example_df ''male'' (Some ''SFS'') ''OBC'' 4200 = StDataframe example_result"
  by (simp add: example_defs)

lemma example_predict_4201:
  "predict example_pandas example_df ''male'' (Some ''SFS'') ''OBC'' 4201 = StDataframe (tl example_result)"
  by (simp add: example_defs)

lemma example_column: "category_column_map ''male'' ''OBC'' = Some ''mobc''"
  by (simp add: category_column_map_def)

lemma example_group_0:
  "strip (astype_str example_pandas ((rows example_df ! 0) ''category'')) = strip ''SFS''"
  by (simp add: example_defs)

lemma example_group_2:
  "strip (astype_str example_pandas ((rows example_df ! 2) ''category'')) = strip ''SFS''"
  by (simp add: example_defs)

lemma example_cell_0: "to_numeric example_pandas ((rows example_df ! 0) ''mobc'') = Num 4200"
  by (simp add: example_defs)

lemma example_cell_2: "to_numeric example_pandas ((rows example_df ! 2) ''mobc'') = NaN"
  by (simp add: example_defs)

lemma example_length: "length (rows example_df) = 4"
  by (simp add: example_df_def)

text \<open>
  The inclusion rule on the example catalog: rank 4200 against the cutoff 4200 (in), rank
  4201 against the same cutoff (out), and the row without a number (in).
\<close>

theorem inclusion_rule_witness:
  "predict example_pandas example_df ''male'' (Some ''SFS'') ''OBC'' 4200 = StDataframe example_result
   \<and> predict example_pandas example_df ''male'' (Some ''SFS'') ''OBC'' 4201
       = StDataframe (tl example_result)
   \<and> category_column_map ''male'' ''OBC'' = Some ''mobc''
   \<and> to_numeric example_pandas ((rows example_df ! 0) ''mobc'') = Num (of_int 4200)
   \<and> to_numeric example_pandas ((rows example_df ! 0) ''mobc'') = Num (of_int (4201 - 1))
   \<and> to_numeric example_pandas ((rows example_df ! 2) ''mobc'') = NaN
   \<and> 0 \<in> row_index ` set example_result
   \<and> 0 \<notin> row_index ` set (tl example_result)
   \<and> 2 \<in> row_index ` set (tl example_result)"
proof -
  have l0: "0 < length (rows example_df)" and l2: "2 < length (rows example_df)"
    by (simp_all add: example_length)
  have c0: "to_numeric example_pandas ((rows example_df ! 0) ''mobc'') = Num (of_int 4200)"
    and c1: "to_numeric example_pandas ((rows example_df ! 0) ''mobc'') = Num (of_int (4201 - 1))"
    by (simp_all add: example_cell_0)
  have "0 \<in> row_index ` set example_result"
    using inclusion_rule [OF example_predict_4200 example_column l0 example_group_0] c0
    by blast
  moreover have "0 \<notin> row_index ` set (tl example_result)"
    using inclusion_rule [OF example_predict_4201 example_column l0 example_group_0] c1
    by blast
  moreover have "2 \<in> row_index ` set (tl example_result)"
    using inclusion_rule [OF example_predict_4201 example_column l2 example_group_2] example_cell_2
    by blast
  ultimately show ?thesis
    using example_predict_4200 example_predict_4201 example_column c0 c1 example_cell_2
    by (intro conjI)
qed

text \<open>
  Row 1 of the example catalog is of group GAS with cutoff 9000: eligible by number, and
  not in the table for group SFS.
\<close>

theorem group_isolation_witness:
  "predict example_pandas example_df ''male'' (Some ''SFS'') ''OBC'' 4200 = StDataframe example_result
   \<and> 1 < length (rows example_df)
   \<and> strip (astype_str example_pandas ((rows example_df ! 1) ''category'')) \<noteq> strip ''SFS''
   \<and> ge_rank (to_numeric example_pandas ((rows example_df ! 1) ''mobc'')) 4200
   \<and> 1 \<notin> row_index ` set example_result
   \<and> hd example_result \<in> set example_result
   \<and> strip (astype_str example_pandas
               ((rows example_df ! row_index (hd example_result)) ''category''))
       = strip ''SFS''"
proof -
  have h: "hd example_result \<in> set example_result"
    by (simp add: example_result_def)
  have l: "1 < length (rows example_df)"
    by (simp add: example_length)
  have g: "strip (astype_str example_pandas ((rows example_df ! 1) ''category'')) \<noteq> strip ''SFS''"
    by (simp add: example_defs)
  have e: "ge_rank (to_numeric example_pandas ((rows example_df ! 1) ''mobc'')) 4200"
    by (simp add: example_defs)
  show ?thesis
    using group_isolation [OF example_predict_4200] example_predict_4200 l g e h
    by blast
qed

text \<open>
  Projection and order on the example catalog.
\<close>

theorem projection_and_order_witness:
  "predict example_pandas example_df ''male'' (Some ''SFS'') ''OBC'' 4200 = StDataframe example_result
   \<and> category_column_map ''male'' ''OBC'' = Some ''mobc''
   \<and> sorted_wrt (<) (map row_index example_result)
   \<and> last example_result \<in> set example_result
   \<and> Institute (last example_result)
       = (rows example_df ! row_index (last example_result)) ''Institute''
   \<and> Branch (last example_result)
       = (rows example_df ! row_index (last example_result)) ''Branch''
   \<and> Cutoff (last example_result)
       = to_numeric example_pandas ((rows example_df ! row_index (last example_result)) ''mobc'')"
proof -
  have h: "last example_result \<in> set example_result"
    by (simp add: example_result_def)
  show ?thesis
    using projection_and_order [OF example_predict_4200 example_column]
      example_predict_4200 example_column h
    by blast
qed

text \<open>
  The example catalog has the column \<^verbatim>\<open>mobc\<close> and no column \<^verbatim>\<open>fobc\<close>.
\<close>

theorem schema_mismatch_witness:
  "''category'' \<in> set (columns example_df)
   \<and> category_column_map ''female'' ''OBC'' \<notin> Some ` set (columns example_df)
   \<and> predict example_pandas example_df ''female'' (Some ''SFS'') ''OBC'' 4200
       = StError ''Category column not found''
   \<and> category_column_map ''male'' ''OBC'' \<in> Some ` set (columns example_df)
   \<and> predict example_pandas example_df ''male'' (Some ''SFS'') ''OBC'' 4200
       \<noteq> StError ''Category column not found''"
proof -
  have c: "''category'' \<in> set (columns example_df)"
    by (simp add: example_df_def)
  have f: "category_column_map ''female'' ''OBC'' \<notin> Some ` set (columns example_df)"
    by (simp add: example_df_def category_column_map_def)
  have m: "category_column_map ''male'' ''OBC'' \<in> Some ` set (columns example_df)"
    by (simp add: example_df_def category_column_map_def)
  show ?thesis
    using schema_mismatch [OF c, of "''female''" "''OBC''" example_pandas "''SFS''" 4200]
      schema_mismatch [OF c, of "''male''" "''OBC''" example_pandas "''SFS''" 4200] c f m
    by blast
qed

text \<open>
  The first row of the example table.
\<close>

theorem cutoff_never_below_rank_witness:
  "predict example_pandas example_df ''male'' (Some ''SFS'') ''OBC'' 4200 = StDataframe example_result
   \<and> category_column_map ''male'' ''OBC'' = Some ''mobc''
   \<and> hd example_result \<in> set example_result
   \<and> Cutoff (hd example_result)
       = to_numeric example_pandas ((rows example_df ! row_index (hd example_result)) ''mobc'')
   \<and> (Cutoff (hd example_result) = NaN
        \<or> (\<exists>x. Cutoff (hd example_result) = Num x \<and> of_int 4200 \<le> x))"
proof -
  have h: "hd example_result \<in> set example_result"
    by (simp add: example_result_def)
  show ?thesis
    using cutoff_never_below_rank [OF example_predict_4200 example_column h]
      example_predict_4200 example_column h
    by blast
qed

section \<open>Properties of the Submit Issue page, registration and login\<close>

lemma find_Some_in: "List.find P xs = Some x \<Longrightarrow> x \<in> set xs \<and> P x"
  by (induction xs) (auto split: if_splits)

lemma find_one_present:
  assumes "find_error e = None"
  shows "(\<exists>user. find_one e coll uname = Inr (Some user))
         \<longleftrightarrow> (\<exists>d \<in> set coll. map_of d ''username'' = Some (BStr uname))"
  using assms unfolding find_one_def
  by (cases "List.find (\<lambda>d. map_of d ''username'' = Some (BStr uname)) coll")
     (auto simp: find_None_iff dest: find_Some_in)

lemma find_one_absent:
  assumes "find_error e = None"
  shows "find_one e coll uname = Inr None
         \<longleftrightarrow> \<not> (\<exists>d \<in> set coll. map_of d ''username'' = Some (BStr uname))"
  using assms unfolding find_one_def
  by (auto simp: find_None_iff)

text \<open>
  C2. When the three required fields are not empty, the insert succeeds and
  \<^verbatim>\<open>send_mail\<close> raises, the page shows the warning \<^verbatim>\<open>Issue saved, but email failed\<close>, the
  ticket is the last document of the issues collection, and every earlier document is
  still there.
\<close>

theorem notifier_failure_keeps_ticket:
  assumes "name \<noteq> []" and "email \<noteq> []" and "issue \<noteq> []"
    and "insert_error e = None" and "mail_error e = Some x"
  shows "fst (submit_issue e w name email mobile issue)
           = StWarning (''Issue saved, but email failed: '' @ x)
         \<and> issues_collection (snd (submit_issue e w name email mobile issue))
           = issues_collection w
             @ [issue_document name email mobile issue @ [(''_id'', ObjectId (clock e) (new_oid e))]]
         \<and> set (issues_collection w)
             \<subseteq> set (issues_collection (snd (submit_issue e w name email mobile issue)))"
  using assms
  by (auto simp: submit_issue_def insert_one_def send_mail_def issue_document_def Let_def)

text \<open>
  C3, amended. When name, email or issue is the empty string (nothing is stripped), the
  page shows the error box and the world is unchanged: no call to the store, no call to
  the mail server. When the three are not empty, no error box is shown, whatever the mobile
  field holds.
\<close>

theorem empty_field_rejected:
  "((name = [] \<or> email = [] \<or> issue = [])
      \<longrightarrow> submit_issue e w name email mobile issue
            = (StError ''Name, Email, and Issue are required.'', w))
   \<and> (name \<noteq> [] \<and> email \<noteq> [] \<and> issue \<noteq> []
      \<longrightarrow> (\<forall>msg. fst (submit_issue e w name email mobile issue) \<noteq> StError msg))"
  by (auto simp: submit_issue_def Let_def split: sum.splits option.splits)

text \<open>
  C7. For a submission that passes the test and whose insert succeeds, the document written
  to the issues collection carries the submitted name, email, mobile and issue, and an
  \<^verbatim>\<open>_id\<close> assigned at the insert: the \<^verbatim>\<open>ObjectId\<close> of the driver, which is the identity of the
  ticket and holds the time of its creation, the clock at the insert. The page itself
  hands \<^verbatim>\<open>insert_one\<close> the four submitted fields only.
\<close>

theorem stored_ticket_identity_and_time:
  assumes "name \<noteq> []" and "email \<noteq> []" and "issue \<noteq> []"
    and "insert_error e = None"
  shows "last (issues_collection (snd (submit_issue e w name email mobile issue)))
           = [(''name'', BStr name), (''email'', BStr email), (''mobile'', BStr mobile),
              (''issue'', BStr issue), (''_id'', ObjectId (clock e) (new_oid e))]
         \<and> map_of (last (issues_collection (snd (submit_issue e w name email mobile issue))))
               ''_id''
           = Some (ObjectId (clock e) (new_oid e))
         \<and> generation_time (ObjectId (clock e) (new_oid e)) = Some (clock e)
         \<and> InsertOne [(''name'', BStr name), (''email'', BStr email),
                       (''mobile'', BStr mobile), (''issue'', BStr issue)]
             \<in> set (calls (snd (submit_issue e w name email mobile issue)))"
  using assms
  by (cases "mail_error e")
     (simp_all add: submit_issue_def insert_one_def send_mail_def issue_document_def Let_def
        generation_time_def)

lemma register_user_present:
  assumes "find_one e (users_collection w) uname = Inr (Some user)"
  shows "register_user wz e w uname password
           = (Inr (Some ''Username already exists''), w\<lparr>calls := calls w @ [FindOne uname]\<rparr>)"
  using assms by (simp add: register_user_def Let_def)

lemma register_user_absent:
  assumes "find_one e (users_collection w) uname = Inr None"
  shows "register_user wz e w uname password =
           (case insert_one e (users_collection w)
                   [(''username'', BStr uname),
                    (''password'', BStr (generate_password_hash wz password))] of
              Inl x \<Rightarrow>
                (Inl x,
                 w\<lparr>calls := calls w @ [FindOne uname,
                      InsertOne [(''username'', BStr uname),
                                 (''password'', BStr (generate_password_hash wz password))]]\<rparr>)
            | Inr coll \<Rightarrow>
                (Inr None,
                 w\<lparr>calls := calls w @ [FindOne uname,
                      InsertOne [(''username'', BStr uname),
                                 (''password'', BStr (generate_password_hash wz password))]],
                   users_collection := coll\<rparr>))"
  using assms by (simp add: register_user_def Let_def split: sum.splits)

text \<open>
  C8. With a store that answers the lookup, \<^verbatim>\<open>register_user\<close> returns
  \<^verbatim>\<open>Username already exists\<close> exactly when a document with that username is in the users
  collection, and the collection is then unchanged. Otherwise, when the insert succeeds,
  it returns \<^verbatim>\<open>None\<close> and appends one document: the username, the hash of the password and
  the identifier of the driver. The result depends on the password through its hash only,
  and \<^verbatim>\<open>login_user\<close> leaves the collection as it is.
\<close>

theorem register_outcomes:
  assumes "find_error e = None"
  shows "(fst (register_user wz e w uname password) = Inr (Some ''Username already exists'')
            \<longleftrightarrow> (\<exists>d \<in> set (users_collection w). map_of d ''username'' = Some (BStr uname)))
         \<and> ((\<exists>d \<in> set (users_collection w). map_of d ''username'' = Some (BStr uname))
              \<longrightarrow> users_collection (snd (register_user wz e w uname password))
                    = users_collection w)
         \<and> (\<not> (\<exists>d \<in> set (users_collection w). map_of d ''username'' = Some (BStr uname))
              \<and> insert_error e = None
              \<longrightarrow> fst (register_user wz e w uname password) = Inr None
                  \<and> users_collection (snd (register_user wz e w uname password))
                    = users_collection w
                      @ [[(''username'', BStr uname),
                          (''password'', BStr (generate_password_hash wz password)),
                          (''_id'', ObjectId (clock e) (new_oid e))]])
         \<and> (\<forall>password'.
              generate_password_hash wz password' = generate_password_hash wz password
              \<longrightarrow> register_user wz e w uname password' = register_user wz e w uname password)
         \<and> users_collection (snd (login_user wz e w uname password)) = users_collection w"
proof -
  let ?present = "\<exists>d \<in> set (users_collection w). map_of d ''username'' = Some (BStr uname)"
  let ?doc = "[(''username'', BStr uname),
               (''password'', BStr (generate_password_hash wz password))]"
  have yes: "fst (register_user wz e w uname password) = Inr (Some ''Username already exists'')
             \<and> users_collection (snd (register_user wz e w uname password)) = users_collection w"
    if ?present
  proof -
    from that obtain user where "find_one e (users_collection w) uname = Inr (Some user)"
      using find_one_present [OF assms] by blast
    then show ?thesis by (simp add: register_user_present)
  qed
  have no: "fst (register_user wz e w uname password) \<noteq> Inr (Some ''Username already exists'')"
    if "\<not> ?present"
  proof -
    from that have "find_one e (users_collection w) uname = Inr None"
      using find_one_absent [OF assms] by blast
    then show ?thesis
      by (simp add: register_user_absent split: sum.splits)
  qed
  have ins: "fst (register_user wz e w uname password) = Inr None
             \<and> users_collection (snd (register_user wz e w uname password))
               = users_collection w @ [?doc @ [(''_id'', ObjectId (clock e) (new_oid e))]]"
    if "\<not> ?present" and "insert_error e = None"
  proof -
    from that(1) have "find_one e (users_collection w) uname = Inr None"
      using find_one_absent [OF assms] by blast
    then show ?thesis
      using that(2) by (simp add: register_user_absent insert_one_def)
  qed
  have a: "fst (register_user wz e w uname password) = Inr (Some ''Username already exists'')
            \<longleftrightarrow> ?present"
    using yes no by blast
  have b: "?present \<longrightarrow> users_collection (snd (register_user wz e w uname password))
                    = users_collection w"
    using yes by blast
  have c: "\<not> ?present \<and> insert_error e = None
              \<longrightarrow> fst (register_user wz e w uname password) = Inr None
                  \<and> users_collection (snd (register_user wz e w uname password))
                    = users_collection w
                      @ [[(''username'', BStr uname),
                          (''password'', BStr (generate_password_hash wz password)),
                          (''_id'', ObjectId (clock e) (new_oid e))]]"
    using ins by simp
  have d: "\<forall>password'.
              generate_password_hash wz password' = generate_password_hash wz password
              \<longrightarrow> register_user wz e w uname password' = register_user wz e w uname password"
  proof (intro allI impI)
    fix password'
    assume eq: "generate_password_hash wz password' = generate_password_hash wz password"
    show "register_user wz e w uname password' = register_user wz e w uname password"
      unfolding register_user_def eq by (rule refl)
  qed
  have l: "users_collection (snd (login_user wz e w uname password)) = users_collection w"
    by (simp add: login_user_def Let_def split: sum.splits option.splits bson.splits)
  from a b c d l show ?thesis by (intro conjI)
qed

text \<open>
  C9, amended. With a store that answers the lookup, when the username is unknown or the
  password does not match the stored hash, \<^verbatim>\<open>login_user\<close> returns a value that is false in a
  test, and the login page shows the same error box and leaves the session as it was, in
  both cases.
\<close>

theorem login_failures_same_page:
  assumes "find_error e = None"
    and "List.find (\<lambda>d. map_of d ''username'' = Some (BStr uname)) (users_collection w) = None
         \<or> (\<exists>user h.
               List.find (\<lambda>d. map_of d ''username'' = Some (BStr uname)) (users_collection w)
                 = Some user
               \<and> map_of user ''password'' = Some (BStr h)
               \<and> \<not> check_password_hash wz h password)"
  shows "(\<exists>v. fst (login_user wz e w uname password) = Inr v \<and> \<not> truthy v)
         \<and> login_page wz e w ss uname password
           = (StError ''Invalid username or password'', ss,
              w\<lparr>calls := calls w @ [FindOne uname]\<rparr>)"
  using assms
  by (auto simp: login_page_def login_user_def find_one_def truthy_def Let_def)

lemmas example_ticket_defs =
  submit_issue_def insert_one_def send_mail_def issue_document_def Let_def
  example_env_def example_env_mail_down_def example_world_def

lemmas example_login_defs =
  login_page_def login_user_def register_user_def find_one_def insert_one_def truthy_def Let_def
  example_env_def example_world_def example_werkzeug_def

text \<open>
  A submission while the mail server is down.
\<close>

theorem notifier_failure_keeps_ticket_witness:
  "''Asha'' \<noteq> [] \<and> ''asha@example.in'' \<noteq> [] \<and> ''Fee paid twice'' \<noteq> []
   \<and> insert_error example_env_mail_down = None
   \<and> mail_error example_env_mail_down = Some ''SMTPServerDisconnected''
   \<and> fst (submit_issue example_env_mail_down example_world
             ''Asha'' ''asha@example.in'' ''9000000000'' ''Fee paid twice'')
       = StWarning ''Issue saved, but email failed: SMTPServerDisconnected''
   \<and> issues_collection (snd (submit_issue example_env_mail_down example_world
             ''Asha'' ''asha@example.in'' ''9000000000'' ''Fee paid twice''))
       = [[(''name'', BStr ''Asha''), (''email'', BStr ''asha@example.in''),
           (''mobile'', BStr ''9000000000''), (''issue'', BStr ''Fee paid twice''),
           (''_id'', ObjectId 1730000000 7)]]"
proof -
  have n: "''Asha'' \<noteq> []" and m: "''asha@example.in'' \<noteq> []" and i: "''Fee paid twice'' \<noteq> []"
    by simp_all
  have s: "insert_error example_env_mail_down = None"
    and f: "mail_error example_env_mail_down = Some ''SMTPServerDisconnected''"
    by (simp_all add: example_env_mail_down_def example_env_def)
  have o: "new_oid example_env_mail_down = 7" "clock example_env_mail_down = 1730000000"
    "issues_collection example_world = []"
    by (simp_all add: example_env_mail_down_def example_env_def example_world_def)
  show ?thesis
    using notifier_failure_keeps_ticket [OF n m i s f, of example_world "''9000000000''"] s f o
    by (simp add: issue_document_def)
qed

text \<open>
  C3, as stated, fails: a name that is one space is empty after stripping, and the page
  inserts the ticket and sends the mail.
\<close>

theorem whitespace_name_counterexample:
  "strip '' '' = []
   \<and> fst (submit_issue example_env example_world '' '' ''asha@example.in'' '''' ''help'')
       = StSuccess ''Issue submitted. Confirmation email sent.''
   \<and> issues_collection
         (snd (submit_issue example_env example_world '' '' ''asha@example.in'' '''' ''help''))
       = [[(''name'', BStr '' ''), (''email'', BStr ''asha@example.in''),
           (''mobile'', BStr ''''), (''issue'', BStr ''help''), (''_id'', ObjectId 1730000000 7)]]
   \<and> calls (snd (submit_issue example_env example_world '' '' ''asha@example.in'' '''' ''help''))
       = [InsertOne [(''name'', BStr '' ''), (''email'', BStr ''asha@example.in''),
                     (''mobile'', BStr ''''), (''issue'', BStr ''help'')],
          SendMail ''asha@example.in'' ''Issue Submission Confirmation''
                   (confirmation_body '' '' ''help'')]"
  by (simp add: example_ticket_defs strip_def isspace_def)

text \<open>
  An empty name is rejected; an empty mobile field is not.
\<close>

theorem empty_field_rejected_witness:
  "submit_issue example_env example_world [] ''asha@example.in'' ''9000000000'' ''help''
     = (StError ''Name, Email, and Issue are required.'', example_world)
   \<and> ''Asha'' \<noteq> [] \<and> ''asha@example.in'' \<noteq> [] \<and> ''help'' \<noteq> []
   \<and> fst (submit_issue example_env example_world ''Asha'' ''asha@example.in'' [] ''help'')
       \<noteq> StError ''Name, Email, and Issue are required.''"
  using empty_field_rejected [of "[]" "''asha@example.in''" "''help''" example_env example_world
      "''9000000000''"]
    empty_field_rejected [of "''Asha''" "''asha@example.in''" "''help''" example_env example_world
      "[]"]
  by simp

text \<open>
  The stored document of an example submission.
\<close>

theorem stored_ticket_identity_and_time_witness:
  "''Asha'' \<noteq> [] \<and> ''asha@example.in'' \<noteq> [] \<and> ''help'' \<noteq> []
   \<and> insert_error example_env = None
   \<and> last (issues_collection (snd (submit_issue example_env example_world
               ''Asha'' ''asha@example.in'' ''9000000000'' ''help'')))
       = [(''name'', BStr ''Asha''), (''email'', BStr ''asha@example.in''),
          (''mobile'', BStr ''9000000000''), (''issue'', BStr ''help''),
          (''_id'', ObjectId 1730000000 7)]
   \<and> generation_time (ObjectId 1730000000 7) = Some 1730000000"
proof -
  have n: "''Asha'' \<noteq> []" and m: "''asha@example.in'' \<noteq> []" and i: "''help'' \<noteq> []"
    by simp_all
  have s: "insert_error example_env = None"
    and o: "new_oid example_env = 7" "clock example_env = 1730000000"
    by (simp_all add: example_env_def)
  note t = stored_ticket_identity_and_time [OF n m i s, of example_world "''9000000000''",
      unfolded o]
  from n m i s t [THEN conjunct1] t [THEN conjunct2, THEN conjunct2, THEN conjunct1]
  show ?thesis
    by (intro conjI)
qed

text \<open>
  Registering a taken and a free username in the example world.
\<close>

theorem register_outcomes_witness:
  "find_error example_env = None \<and> insert_error example_env = None
   \<and> (\<exists>d \<in> set (users_collection example_world). map_of d ''username'' = Some (BStr ''alice''))
   \<and> \<not> (\<exists>d \<in> set (users_collection example_world). map_of d ''username'' = Some (BStr ''bob''))
   \<and> fst (register_user example_werkzeug example_env example_world ''alice'' ''secret'')
       = Inr (Some ''Username already exists'')
   \<and> users_collection (snd (register_user example_werkzeug example_env example_world
                               ''alice'' ''secret''))
       = users_collection example_world
   \<and> fst (register_user example_werkzeug example_env example_world ''bob'' ''hunter2'')
       = Inr None
   \<and> users_collection (snd (register_user example_werkzeug example_env example_world
                               ''bob'' ''hunter2''))
       = users_collection example_world
         @ [[(''username'', BStr ''bob''), (''password'', BStr ''pbkdf2:sha256$2retnuh''),
             (''_id'', ObjectId 1730000000 7)]]"
proof -
  have f: "find_error example_env = None" and s: "insert_error example_env = None"
    and o: "new_oid example_env = 7" "clock example_env = 1730000000"
    by (simp_all add: example_env_def)
  have a: "\<exists>d \<in> set (users_collection example_world). map_of d ''username'' = Some (BStr ''alice'')"
    by (simp add: example_world_def)
  have b: "\<not> (\<exists>d \<in> set (users_collection example_world). map_of d ''username'' = Some (BStr ''bob''))"
    by (simp add: example_world_def)
  have h: "generate_password_hash example_werkzeug ''hunter2'' = ''pbkdf2:sha256$2retnuh''"
    by (simp add: example_werkzeug_def)
  note alice = register_outcomes [OF f, of example_werkzeug example_world "''alice''" "''secret''"]
  note bob = register_outcomes [OF f, of example_werkzeug example_world "''bob''" "''hunter2''"]
  have x1: "fst (register_user example_werkzeug example_env example_world ''alice'' ''secret'')
       = Inr (Some ''Username already exists'')"
    by (rule alice [THEN conjunct1, THEN iffD2, OF a])
  have x2: "users_collection (snd (register_user example_werkzeug example_env example_world
                               ''alice'' ''secret''))
       = users_collection example_world"
    by (rule alice [THEN conjunct2, THEN conjunct1, THEN mp, OF a])
  note x3 = bob [THEN conjunct2, THEN conjunct2, THEN conjunct1, THEN mp, OF conjI [OF b s],
      unfolded h o]
  from f s a b x1 x2 x3 show ?thesis
    by (intro conjI) (erule conjunct1 conjunct2 | assumption)+
qed

text \<open>
  C9, as stated, fails: \<^verbatim>\<open>login_user\<close> returns \<^verbatim>\<open>None\<close> for an unknown username and
  \<^verbatim>\<open>False\<close> for a wrong password, two different values.
\<close>

theorem login_return_value_counterexample:
  "fst (login_user example_werkzeug example_env example_world ''bob'' ''secret'') = Inr PyNone
   \<and> fst (login_user example_werkzeug example_env example_world ''alice'' ''wrong'')
       = Inr (PyBool False)
   \<and> fst (login_user example_werkzeug example_env example_world ''bob'' ''secret'')
       \<noteq> fst (login_user example_werkzeug example_env example_world ''alice'' ''wrong'')"
  by (simp add: example_login_defs)

text \<open>
  An unknown username and a wrong password in the example world.
\<close>

theorem login_failures_same_page_witness:
  "find_error example_env = None
   \<and> List.find (\<lambda>d. map_of d ''username'' = Some (BStr ''bob''))
        (users_collection example_world) = None
   \<and> List.find (\<lambda>d. map_of d ''username'' = Some (BStr ''alice''))
        (users_collection example_world) = Some (hd (users_collection example_world))
   \<and> map_of (hd (users_collection example_world)) ''password''
        = Some (BStr ''pbkdf2:sha256$terces'')
   \<and> \<not> check_password_hash example_werkzeug ''pbkdf2:sha256$terces'' ''wrong''
   \<and> fst (login_page example_werkzeug example_env example_world
             \<lparr>authenticated = False, session_username = None\<rparr> ''bob'' ''secret'')
       = StError ''Invalid username or password''
   \<and> fst (login_page example_werkzeug example_env example_world
             \<lparr>authenticated = False, session_username = None\<rparr> ''alice'' ''wrong'')
       = StError ''Invalid username or password''"
proof -
  have f: "find_error example_env = None"
    by (simp add: example_env_def)
  have b: "List.find (\<lambda>d. map_of d ''username'' = Some (BStr ''bob''))
        (users_collection example_world) = None"
    by (simp add: example_world_def)
  have a1: "List.find (\<lambda>d. map_of d ''username'' = Some (BStr ''alice''))
        (users_collection example_world) = Some (hd (users_collection example_world))"
    and a2: "map_of (hd (users_collection example_world)) ''password''
        = Some (BStr ''pbkdf2:sha256$terces'')"
    by (simp_all add: example_world_def)
  have a3: "\<not> check_password_hash example_werkzeug ''pbkdf2:sha256$terces'' ''wrong''"
    by (simp add: example_werkzeug_def)
  have hb: "List.find (\<lambda>d. map_of d ''username'' = Some (BStr ''bob''))
              (users_collection example_world) = None
         \<or> (\<exists>user h.
               List.find (\<lambda>d. map_of d ''username'' = Some (BStr ''bob''))
                 (users_collection example_world) = Some user
               \<and> map_of user ''password'' = Some (BStr h)
               \<and> \<not> check_password_hash example_werkzeug h ''secret'')"
    using b by blast
  have ha: "List.find (\<lambda>d. map_of d ''username'' = Some (BStr ''alice''))
              (users_collection example_world) = None
         \<or> (\<exists>user h.
               List.find (\<lambda>d. map_of d ''username'' = Some (BStr ''alice''))
                 (users_collection example_world) = Some user
               \<and> map_of user ''password'' = Some (BStr h)
               \<and> \<not> check_password_hash example_werkzeug h ''wrong'')"
    using a1 a2 a3 by blast
  show ?thesis
    using login_failures_same_page [OF f hb, of "\<lparr>authenticated = False, session_username = None\<rparr>"]
      login_failures_same_page [OF f ha, of "\<lparr>authenticated = False, session_username = None\<rparr>"]
      f b a1 a2 a3
    by simp
qed

end
